theory Spec2Isabelle
  imports Main "HOL-Library.Sublist" "HOL-Library.Finite_Map"
begin

section \<open>JavaScript values and the data context\<close>

text \<open>
  The values a template data context can hold. Numbers are restricted to integers;
  a function is known by its identity (a number standing for the function object);
  a nested object is a finite map, since nothing below enumerates its keys.
\<close>

datatype jsval =
    JUndefined
  | JNull
  | JBool bool
  | JNum int
  | JStr string
  | JFun nat
  | JArr "jsval list"
  | JObj "(string, jsval) fmap"

text \<open>
  A data context (\<open>tmpl.data\<close>, \<open>Template.currentData()\<close>) is an object whose own
  keys are enumerated in order: an association list. A well-formed object has no key
  twice (\<open>distinct (Object_keys d)\<close>).
\<close>

type_synonym snapshot = "(string \<times> jsval) list"

definition Object_keys :: "snapshot \<Rightarrow> string list" where
  "Object_keys d = map fst d"

text \<open>
  A data context is a plain object: what it does not have itself it inherits from
  \<open>Object.prototype\<close>. These are the members of \<open>Object.prototype\<close> a browser
  provides; its built-in functions are given the identities 1000 to 1010, and the
  object \<open>Object.prototype\<close> itself, which has no enumerable key, is the empty object.
\<close>

definition Object_prototype :: "(string \<times> jsval) list" where
  "Object_prototype =
     [(''constructor'', JFun 1000), (''hasOwnProperty'', JFun 1001),
      (''isPrototypeOf'', JFun 1002), (''propertyIsEnumerable'', JFun 1003),
      (''toLocaleString'', JFun 1004), (''toString'', JFun 1005), (''valueOf'', JFun 1006),
      (''__defineGetter__'', JFun 1007), (''__defineSetter__'', JFun 1008),
      (''__lookupGetter__'', JFun 1009), (''__lookupSetter__'', JFun 1010),
      (''__proto__'', JObj fmempty)]"

text \<open>
  The property read \<open>d[k]\<close> (\<open>d.k\<close>): the object's own value under \<open>k\<close>; for a key
  the object does not have, the member of \<open>Object.prototype\<close> of that name; and
  \<open>undefined\<close> when there is none.
\<close>

definition getprop :: "snapshot \<Rightarrow> string \<Rightarrow> jsval" where
  "getprop d k =
     (case map_of d k of
        Some v \<Rightarrow> v
      | None \<Rightarrow> (case map_of Object_prototype k of None \<Rightarrow> JUndefined | Some v \<Rightarrow> v))"

text \<open>The value of an expression used as a condition (\<open>if (v)\<close>, \<open>!v\<close>).\<close>

fun truthy :: "jsval \<Rightarrow> bool" where
  "truthy JUndefined = False"
| "truthy JNull = False"
| "truthy (JBool b) = b"
| "truthy (JNum n) = (n \<noteq> 0)"
| "truthy (JStr s) = (s \<noteq> [])"
| "truthy (JFun f) = True"
| "truthy (JArr xs) = True"
| "truthy (JObj m) = True"

text \<open>\<open>_.isFunction\<close>.\<close>

fun isFunction :: "jsval \<Rightarrow> bool" where
  "isFunction (JFun f) = True"
| "isFunction v = False"

text \<open>
  \<open>_.isEqual\<close>: deep comparison. Arrays are compared element by element, objects key
  by key whatever the order of their keys, functions by identity; on the
  representation above that is equality of the two values.
\<close>

definition isEqual :: "jsval \<Rightarrow> jsval \<Rightarrow> bool" where
  "isEqual a b = (a = b)"

text \<open>\<open>s.indexOf(p)\<close>: the first position at which \<open>p\<close> occurs in \<open>s\<close>, or \<open>-1\<close>.\<close>

fun indexOf :: "string \<Rightarrow> string \<Rightarrow> int" where
  "indexOf [] p = (if p = [] then 0 else -1)"
| "indexOf (c # cs) p =
     (if prefix p (c # cs) then 0
      else (let i = indexOf cs p in if i < 0 then -1 else i + 1))"

text \<open>\<open>s.substring(n)\<close>.\<close>

definition substring :: "string \<Rightarrow> nat \<Rightarrow> string" where
  "substring s n = drop n s"

section \<open>The host and the widget\<close>

text \<open>
  The jQuery object returned by \<open>tmpl.$('.froala-reactive-meteorized')\<close>: the number
  of elements it matched and the two properties under which the editor plugin may be
  installed.
\<close>

record jquery =
  jq_length :: nat
  froalaEditable :: jsval
  editable :: jsval

text \<open>
  The template instance a hook receives as \<open>this\<close>: its data context and the result
  of its element lookup.
\<close>

record template_instance =
  data :: snapshot
  dollar :: jquery

datatype error =
    Error string
  | TypeError
  | WidgetException

text \<open>The calls \<open>$input[froalaMethod](...)\<close>.\<close>

datatype wcall =
    Init snapshot
  | SetHTML jsval
  | RestoreSelectionByMarkers
  | SetOption string jsval
  | Destroy

text \<open>
  What a hook does to its collaborators, in order. \<open>Widget m c\<close> is the call \<open>c\<close>
  through the method named \<open>m\<close>; \<open>On n opt\<close> is \<open>$input.on(n, listener)\<close> where the
  listener is the closure over the key \<open>opt\<close>; \<open>Apply f self args\<close> is
  \<open>f.apply(self, args)\<close>.
\<close>

datatype effect =
    Widget string wcall
  | On string string
  | Unbind string
  | PreventDefault jsval
  | Apply jsval snapshot "jsval list"

section \<open>The adapter\<close>

fun getFroalaEditableJQueryInstanceMethod :: "jquery option \<Rightarrow> string option" where
  "getFroalaEditableJQueryInstanceMethod None = None"
| "getFroalaEditableJQueryInstanceMethod (Some froalaJQueryObject) =
     (if isFunction (froalaEditable froalaJQueryObject) then Some ''froalaEditable''
      else if isFunction (editable froalaJQueryObject) then Some ''editable''
      else None)"

definition getEventHandlerNames :: "snapshot \<Rightarrow> string list" where
  "getEventHandlerNames tmplData =
     filter (\<lambda>opt. indexOf opt ''_on'' = 0 \<and> isFunction (getprop tmplData opt))
       (Object_keys tmplData)"

text \<open>\<open>'editable.' + opt.substring(3)\<close>, as both hooks compute it.\<close>

definition eventName :: "string \<Rightarrow> string" where
  "eventName opt = ''editable.'' @ substring opt 3"

text \<open>
  The variables the closures made by \<open>rendered\<close> share: the template instance, the
  last data context seen, the jQuery object and the name of the plugin method. The
  code assigns \<open>lastData\<close> in the autorun block and never assigns \<open>tmpl.data\<close>, which
  the listener's comment calls the original \<open>tmpl.data\<close> object: for the listeners
  the instance stays as the mount received it, and the data contexts of later runs
  reach the adapter only through \<open>Template.currentData()\<close>. The \<open>destroyed\<close> hook
  does not share these variables; it is handed the instance anew.
\<close>

record adapter =
  tmpl :: template_instance
  lastData :: snapshot
  input :: jquery
  froalaMethod :: string

text \<open>
  \<open>Template.froalaReactive.rendered\<close>, up to the registration of the autorun block.
  Both \<open>throw\<close> statements come before any call to a collaborator.
\<close>

definition rendered :: "template_instance \<Rightarrow> effect list \<times> (error + adapter)" where
  "rendered this =
     (let lastData0 = data this; inp = dollar this in
      if jq_length inp \<noteq> 1 then ([], Inl (Error ''invalid-froala-reactive-template''))
      else
        (case getFroalaEditableJQueryInstanceMethod (Some inp) of
           None \<Rightarrow> ([], Inl (Error ''invalid-froala-editor-plugin''))
         | Some m \<Rightarrow>
             ([Widget m (Init (data this))]
              @ (if truthy (getprop (data this) ''_value'')
                 then [Widget m (SetHTML (getprop (data this) ''_value''))] else [])
              @ map (\<lambda>opt. On (eventName opt) opt) (getEventHandlerNames (data this)),
              Inr \<lparr>tmpl = this, lastData = lastData0, input = inp, froalaMethod = m\<rparr>)))"

text \<open>
  The listener \<open>rendered\<close> subscribes for the key \<open>opt\<close>, called with the event \<open>e\<close>
  and the further arguments \<open>extra\<close> (\<open>arguments\<close> is \<open>e # extra\<close>). Applying a value
  that is not a function is a TypeError.
\<close>

definition listener :: "adapter \<Rightarrow> string \<Rightarrow> jsval \<Rightarrow> jsval list \<Rightarrow> effect list \<times> (error + unit)" where
  "listener st opt e extra =
     (let f = getprop (data (tmpl st)) opt in
      if isFunction f then ([PreventDefault e, Apply f (lastData st) (e # extra)], Inr ())
      else ([PreventDefault e], Inl TypeError))"

text \<open>
  The autorun block, run by the host each time the data context changes (and once
  when it is registered); \<open>currentData\<close> is the source's
  \<open>_data = Template.currentData()\<close>.
\<close>

definition changedOpts :: "snapshot \<Rightarrow> snapshot \<Rightarrow> string list" where
  "changedOpts last_data currentData =
     filter (\<lambda>opt. indexOf opt ''_'' \<noteq> 0 \<and> \<not> isEqual (getprop last_data opt) (getprop currentData opt))
       (Object_keys currentData)"

definition autorun :: "adapter \<Rightarrow> snapshot \<Rightarrow> effect list \<times> adapter" where
  "autorun st currentData =
     ((if truthy (getprop currentData ''_value'')
          \<and> \<not> isEqual (getprop (lastData st) ''_value'') (getprop currentData ''_value'')
       then [Widget (froalaMethod st) (SetHTML (getprop currentData ''_value'')),
             Widget (froalaMethod st) RestoreSelectionByMarkers]
       else [])
      @ map (\<lambda>opt. Widget (froalaMethod st) (SetOption opt (getprop currentData opt)))
          (changedOpts (lastData st) currentData),
      st\<lparr>lastData := currentData\<rparr>)"

text \<open>The adapter after the autorun block has run on each data context of a list in turn.\<close>

fun autoruns :: "adapter \<Rightarrow> snapshot list \<Rightarrow> adapter" where
  "autoruns st [] = st"
| "autoruns st (d # ds) = autoruns (snd (autorun st d)) ds"

text \<open>
  \<open>try { ... } catch (err) {}\<close>: whatever the block threw is dropped.
\<close>

definition try_catch :: "error + unit \<Rightarrow> error + unit" where
  "try_catch r = (case r of Inl err \<Rightarrow> Inr () | Inr u \<Rightarrow> Inr u)"

text \<open>
  The template instance as the host hands it to the \<open>destroyed\<close> hook. The host
  sets its data to the data context current at that moment, which is \<open>null\<close> for a
  template without a data context (\<open>None\<close>); and the element lookup \<open>tmpl.$(...)\<close>
  throws when the view has no DOM to search (\<open>Inl\<close> the error), and otherwise
  returns a jQuery object.
\<close>

record destroyed_instance =
  this_data :: "snapshot option"
  this_dollar :: "error + jquery"

text \<open>
  \<open>Template.froalaReactive.destroyed\<close>. The lookup on line 119 and the enumeration
  \<open>Object.keys(tmpl.data)\<close> inside \<open>getEventHandlerNames\<close> (a TypeError on \<open>null\<close>) stand
  outside the \<open>try\<close> block, so what they throw leaves the hook. The call inside the
  block is the widget's \<open>destroy\<close>: whether it throws is the input \<open>destroy_throws\<close>.
  The calls of \<open>$input.unbind\<close> are taken to return.
\<close>

definition destroyed :: "destroyed_instance \<Rightarrow> bool \<Rightarrow> effect list \<times> (error + unit)" where
  "destroyed this destroy_throws =
     (case this_dollar this of
        Inl err \<Rightarrow> ([], Inl err)
      | Inr inp \<Rightarrow>
          (case getFroalaEditableJQueryInstanceMethod (Some inp) of
             None \<Rightarrow> ([], Inr ())
           | Some m \<Rightarrow>
               (case this_data this of
                  None \<Rightarrow> ([], Inl TypeError)
                | Some tmplData \<Rightarrow>
                    (map (\<lambda>opt. Unbind (eventName opt)) (getEventHandlerNames tmplData)
                     @ [Widget m Destroy],
                     try_catch (if destroy_throws then Inl WidgetException else Inr ())))))"

section \<open>Reading a list of effects\<close>


text \<open>The \<open>'setHTML'\<close> and \<open>'restoreSelectionByMarkers'\<close> calls, in order.\<close>

fun content_calls :: "effect list \<Rightarrow> wcall list" where
  "content_calls [] = []"
| "content_calls (Widget m (SetHTML v) # es) = SetHTML v # content_calls es"
| "content_calls (Widget m RestoreSelectionByMarkers # es) =
     RestoreSelectionByMarkers # content_calls es"
| "content_calls (e # es) = content_calls es"

text \<open>The event names passed to \<open>$input.on\<close>, and those passed to \<open>$input.unbind\<close>.\<close>

fun subscribed :: "effect list \<Rightarrow> string list" where
  "subscribed [] = []"
| "subscribed (On n opt # es) = n # subscribed es"
| "subscribed (e # es) = subscribed es"


text \<open>The functions a list of effects applies.\<close>

fun applied :: "effect list \<Rightarrow> jsval list" where
  "applied [] = []"
| "applied (Apply f self args # es) = f # applied es"
| "applied (e # es) = applied es"

text \<open>
  The specification's wording of the event name, for comparison with \<open>eventName\<close>:
  the event of the lowercased name that follows \<open>_on\<close>.
\<close>

definition toLowerCase :: "string \<Rightarrow> string" where
  "toLowerCase s =
     map (\<lambda>c. case map_of (zip ''ABCDEFGHIJKLMNOPQRSTUVWXYZ'' ''abcdefghijklmnopqrstuvwxyz'') c of
                 None \<Rightarrow> c | Some l \<Rightarrow> l) s"

definition lowercased_eventName :: "string \<Rightarrow> string" where
  "lowercased_eventName opt = ''editable.'' @ toLowerCase (substring opt 3)"

section \<open>Example inputs\<close>

text \<open>
  One matched element with the plugin under its original name; the same without
  the plugin; and with the plugin renamed beside another \<open>editable\<close> plugin.
\<close>

definition plugin :: jquery where
  "plugin = \<lparr>jq_length = 1, froalaEditable = JUndefined, editable = JFun 100\<rparr>"

definition no_plugin :: jquery where
  "no_plugin = \<lparr>jq_length = 1, froalaEditable = JUndefined, editable = JUndefined\<rparr>"

definition renamed_plugin :: jquery where
  "renamed_plugin = \<lparr>jq_length = 1, froalaEditable = JFun 100, editable = JFun 200\<rparr>"

text \<open>Three data contexts of one template, in the order the host presents them.\<close>

definition data0 :: snapshot where
  "data0 = [(''inlineMode'', JBool True), (''height'', JNum 200),
            (''_onbeforeSave'', JFun 1), (''_value'', JStr ''<p>a</p>''), (''gone'', JNum 1)]"

definition data1 :: snapshot where
  "data1 = [(''inlineMode'', JBool True), (''height'', JNum 300),
            (''_onbeforeSave'', JFun 2), (''_value'', JStr ''<p>b</p>''),
            (''theme'', JStr ''dark'')]"

definition data2 :: snapshot where
  "data2 = [(''inlineMode'', JBool False), (''height'', JNum 300), (''_value'', JStr [])]"

text \<open>The adapter a mount of the first data context leaves, an event and the editor.\<close>

definition adapter0 :: adapter where
  "adapter0 = \<lparr>tmpl = \<lparr>data = data0, dollar = plugin\<rparr>, lastData = data0, input = plugin,
                froalaMethod = ''editable''\<rparr>"

definition ev :: jsval where
  "ev = JObj (fmupd ''type'' (JStr ''editable'') fmempty)"

definition editor :: jsval where
  "editor = JObj fmempty"


text \<open>The error of an element lookup on a view without DOM.\<close>

definition no_DOM :: error where
  "no_DOM = Error ''no DOM''"

section \<open>Basic facts\<close>

lemma indexOf_0_iff: "indexOf s p = 0 \<longleftrightarrow> prefix p s"
  by (cases s) (auto simp: Let_def)



lemma content_calls_append: "content_calls (xs @ ys) = content_calls xs @ content_calls ys"
  by (induction xs rule: content_calls.induct) simp_all

lemma content_calls_map_SetOption:
  "content_calls (map (\<lambda>opt. Widget m (SetOption opt (f opt))) ks) = []"
  by (induction ks) simp_all

lemma content_calls_map_On: "content_calls (map (\<lambda>opt. On (f opt) opt) ks) = []"
  by (induction ks) simp_all







text \<open>The autorun block replaces the last data context and nothing else.\<close>

lemma lastData_autorun: "lastData (snd (autorun st d)) = d"
  by (simp add: autorun_def)

lemma tmpl_autorun: "tmpl (snd (autorun st d)) = tmpl st"
  by (simp add: autorun_def)

lemma tmpl_autoruns: "tmpl (autoruns st ds) = tmpl st"
  by (induction ds arbitrary: st) (simp_all add: tmpl_autorun)

lemma lastData_autoruns: "lastData (autoruns st ds) = last (lastData st # ds)"
  by (induction ds arbitrary: st) (simp_all add: lastData_autorun)

text \<open>Run again on the data context it saw last, the block calls nothing.\<close>

lemma autorun_same: "fst (autorun st (lastData st)) = []"
  by (simp add: autorun_def changedOpts_def isEqual_def)

lemma froalaMethod_autorun: "froalaMethod (snd (autorun st d)) = froalaMethod st"
  by (simp add: autorun_def)

text \<open>The content calls of one run, from the last data context the adapter holds.\<close>

lemma content_calls_autorun:
  "content_calls (fst (autorun st d))
     = (if truthy (getprop d ''_value'')
           \<and> \<not> isEqual (getprop (lastData st) ''_value'') (getprop d ''_value'')
        then [SetHTML (getprop d ''_value''), RestoreSelectionByMarkers] else [])"
  by (simp add: autorun_def content_calls_append content_calls_map_SetOption)

lemma take2_autorun:
  assumes "truthy (getprop d ''_value'')"
    and "\<not> isEqual (getprop (lastData st) ''_value'') (getprop d ''_value'')"
  shows "take 2 (fst (autorun st d))
           = [Widget (froalaMethod st) (SetHTML (getprop d ''_value'')),
              Widget (froalaMethod st) RestoreSelectionByMarkers]"
  using assms by (simp add: autorun_def)

lemma getprop_value_absent: "map_of d ''_value'' = None \<Longrightarrow> getprop d ''_value'' = JUndefined"
  by (simp add: getprop_def Object_prototype_def)

text \<open>What a mount that succeeded has done.\<close>

lemma rendered_Inr:
  assumes "rendered this = (effs, Inr st)"
  obtains m where "jq_length (dollar this) = 1"
    and "getFroalaEditableJQueryInstanceMethod (Some (dollar this)) = Some m"
    and "effs = [Widget m (Init (data this))]
              @ (if truthy (getprop (data this) ''_value'')
                 then [Widget m (SetHTML (getprop (data this) ''_value''))] else [])
              @ map (\<lambda>opt. On (eventName opt) opt) (getEventHandlerNames (data this))"
    and "st = \<lparr>tmpl = this, lastData = data this, input = dollar this, froalaMethod = m\<rparr>"
  using assms unfolding rendered_def Let_def
  by (auto split: if_splits option.splits)

text \<open>The mount of the first example data context.\<close>

lemma rendered_plugin_data0:
  "rendered \<lparr>data = data0, dollar = plugin\<rparr>
     = ([Widget ''editable'' (Init data0), Widget ''editable'' (SetHTML (JStr ''<p>a</p>'')),
         On ''editable.beforeSave'' ''_onbeforeSave''],
        Inr \<lparr>tmpl = \<lparr>data = data0, dollar = plugin\<rparr>, lastData = data0, input = plugin,
             froalaMethod = ''editable''\<rparr>)"
  by (simp add: rendered_def Let_def plugin_def data0_def getEventHandlerNames_def
      Object_keys_def getprop_def Object_prototype_def eventName_def substring_def)

section \<open>Reactive recomputation\<close>



text \<open>
  C2. When the autorun block has processed a data context \<open>S\<close> and then processes
  \<open>S'\<close>: if the \<open>_value\<close> of \<open>S'\<close> is truthy (for a string: not empty) and differs by
  deep comparison from the \<open>_value\<close> of \<open>S\<close>, the run first calls \<open>'setHTML'\<close>
  with the new value and next \<open>'restoreSelectionByMarkers'\<close>, and these are its only
  two calls of either kind; if the \<open>_value\<close> of \<open>S'\<close> is absent, is the empty string
  (or any other falsy value), or equals that of \<open>S\<close>, the run calls neither. The
  same holds from a mount on: after a successful mount and any runs of the block,
  the last-known \<open>_value\<close> is that of the data context processed last, or of the
  mount when there was no run.
\<close>

theorem autorun_content_set:
  "(truthy (getprop S' ''_value'')
      \<and> \<not> isEqual (getprop S ''_value'') (getprop S' ''_value'')
      \<longrightarrow> take 2 (fst (autorun (snd (autorun st S)) S'))
            = [Widget (froalaMethod st) (SetHTML (getprop S' ''_value'')),
               Widget (froalaMethod st) RestoreSelectionByMarkers]
          \<and> content_calls (fst (autorun (snd (autorun st S)) S'))
            = [SetHTML (getprop S' ''_value''), RestoreSelectionByMarkers])
   \<and> (map_of S' ''_value'' = None
      \<longrightarrow> content_calls (fst (autorun (snd (autorun st S)) S')) = [])
   \<and> (getprop S' ''_value'' = JStr []
      \<longrightarrow> content_calls (fst (autorun (snd (autorun st S)) S')) = [])
   \<and> (\<not> truthy (getprop S' ''_value'')
      \<longrightarrow> content_calls (fst (autorun (snd (autorun st S)) S')) = [])
   \<and> (isEqual (getprop S ''_value'') (getprop S' ''_value'')
      \<longrightarrow> content_calls (fst (autorun (snd (autorun st S)) S')) = [])
   \<and> (rendered this = (effs, Inr mounted)
      \<longrightarrow> content_calls (fst (autorun (autoruns mounted ds) S'))
            = (if truthy (getprop S' ''_value'')
                  \<and> \<not> isEqual (getprop (last (data this # ds)) ''_value'') (getprop S' ''_value'')
               then [SetHTML (getprop S' ''_value''), RestoreSelectionByMarkers] else []))"
proof -
  let ?st1 = "snd (autorun st S)"
  have l: "lastData ?st1 = S"
    by (rule lastData_autorun)
  have m: "froalaMethod ?st1 = froalaMethod st"
    by (rule froalaMethod_autorun)
  have c: "content_calls (fst (autorun ?st1 S'))
     = (if truthy (getprop S' ''_value'')
           \<and> \<not> isEqual (getprop S ''_value'') (getprop S' ''_value'')
        then [SetHTML (getprop S' ''_value''), RestoreSelectionByMarkers] else [])"
    using content_calls_autorun [of ?st1 S'] l by simp
  have t: "take 2 (fst (autorun ?st1 S'))
            = [Widget (froalaMethod st) (SetHTML (getprop S' ''_value'')),
               Widget (froalaMethod st) RestoreSelectionByMarkers]"
    if "truthy (getprop S' ''_value'')"
      and "\<not> isEqual (getprop S ''_value'') (getprop S' ''_value'')"
    using take2_autorun [of S' ?st1] that l m by simp
  have a: "content_calls (fst (autorun ?st1 S')) = []" if "map_of S' ''_value'' = None"
    using c getprop_value_absent [OF that] by simp
  have e: "content_calls (fst (autorun ?st1 S')) = []" if "getprop S' ''_value'' = JStr []"
    using c that by simp
  have r: "content_calls (fst (autorun (autoruns mounted ds) S'))
            = (if truthy (getprop S' ''_value'')
                  \<and> \<not> isEqual (getprop (last (data this # ds)) ''_value'') (getprop S' ''_value'')
               then [SetHTML (getprop S' ''_value''), RestoreSelectionByMarkers] else [])"
    if mount: "rendered this = (effs, Inr mounted)"
  proof -
    from mount have "lastData mounted = data this"
      by (rule rendered_Inr) simp
    then have "lastData (autoruns mounted ds) = last (data this # ds)"
      by (simp add: lastData_autoruns)
    then show ?thesis
      using content_calls_autorun [of "autoruns mounted ds" S'] by simp
  qed
  show ?thesis
    using c t a e r by simp
qed

theorem autorun_content_set_witness:
  "truthy (getprop data1 ''_value'')
   \<and> \<not> isEqual (getprop data0 ''_value'') (getprop data1 ''_value'')
   \<and> fst (autorun (snd (autorun adapter0 data0)) data1)
       = [Widget ''editable'' (SetHTML (JStr ''<p>b</p>'')),
          Widget ''editable'' RestoreSelectionByMarkers,
          Widget ''editable'' (SetOption ''height'' (JNum 300)),
          Widget ''editable'' (SetOption ''theme'' (JStr ''dark''))]
   \<and> content_calls (fst (autorun (snd (autorun adapter0 data0)) data1))
       = [SetHTML (JStr ''<p>b</p>''), RestoreSelectionByMarkers]
   \<and> isEqual (getprop data1 ''_value'') (getprop data1 ''_value'')
   \<and> content_calls (fst (autorun (snd (autorun adapter0 data1)) data1)) = []
   \<and> getprop data2 ''_value'' = JStr []
   \<and> content_calls (fst (autorun (snd (autorun adapter0 data1)) data2)) = []
   \<and> rendered \<lparr>data = data0, dollar = plugin\<rparr>
       = ([Widget ''editable'' (Init data0), Widget ''editable'' (SetHTML (JStr ''<p>a</p>'')),
           On ''editable.beforeSave'' ''_onbeforeSave''], Inr adapter0)
   \<and> content_calls (fst (autorun (autoruns adapter0 [data1]) data1)) = []
   \<and> content_calls (fst (autorun (autoruns adapter0 []) data1))
       = [SetHTML (JStr ''<p>b</p>''), RestoreSelectionByMarkers]"
proof -
  have v0: "getprop data0 ''_value'' = JStr ''<p>a</p>''"
    by (simp add: data0_def getprop_def)
  have v1: "getprop data1 ''_value'' = JStr ''<p>b</p>''"
    by (simp add: data1_def getprop_def)
  have v2: "getprop data2 ''_value'' = JStr []"
    by (simp add: data2_def getprop_def)
  have r: "rendered \<lparr>data = data0, dollar = plugin\<rparr>
       = ([Widget ''editable'' (Init data0), Widget ''editable'' (SetHTML (JStr ''<p>a</p>'')),
           On ''editable.beforeSave'' ''_onbeforeSave''], Inr adapter0)"
    by (simp add: rendered_plugin_data0 adapter0_def)
  have f: "fst (autorun (snd (autorun adapter0 data0)) data1)
       = [Widget ''editable'' (SetHTML (JStr ''<p>b</p>'')),
          Widget ''editable'' RestoreSelectionByMarkers,
          Widget ''editable'' (SetOption ''height'' (JNum 300)),
          Widget ''editable'' (SetOption ''theme'' (JStr ''dark''))]"
    by (simp add: autorun_def changedOpts_def Object_keys_def getprop_def Object_prototype_def
        isEqual_def adapter0_def data0_def data1_def)
  have t: "truthy (getprop data1 ''_value'')"
    using v1 by simp
  have n: "\<not> isEqual (getprop data0 ''_value'') (getprop data1 ''_value'')"
    using v0 v1 by (simp add: isEqual_def)
  have q: "isEqual (getprop data1 ''_value'') (getprop data1 ''_value'')"
    by (simp add: isEqual_def)
  note a = autorun_content_set [where S' = data1 and S = data0 and st = adapter0]
  note b = autorun_content_set [where S' = data1 and S = data1 and st = adapter0]
  note c = autorun_content_set [where S' = data2 and S = data1 and st = adapter0]
  note d = autorun_content_set [where S' = data1 and mounted = adapter0 and ds = "[data1]"
      and this = "\<lparr>data = data0, dollar = plugin\<rparr>"]
  note e = autorun_content_set [where S' = data1 and mounted = adapter0 and ds = "[]"
      and this = "\<lparr>data = data0, dollar = plugin\<rparr>"]
  have c1: "content_calls (fst (autorun (snd (autorun adapter0 data0)) data1))
       = [SetHTML (JStr ''<p>b</p>''), RestoreSelectionByMarkers]"
    using a t n v1 by simp
  have c2: "content_calls (fst (autorun (snd (autorun adapter0 data1)) data1)) = []"
    using b q by simp
  have c3: "content_calls (fst (autorun (snd (autorun adapter0 data1)) data2)) = []"
    using c v2 by simp
  have c4: "content_calls (fst (autorun (autoruns adapter0 [data1]) data1)) = []"
    using d r q by simp
  have c5: "content_calls (fst (autorun (autoruns adapter0 []) data1))
       = [SetHTML (JStr ''<p>b</p>''), RestoreSelectionByMarkers]"
    using e r t n v1 by simp
  show ?thesis
    by (intro conjI t n f c1 q c2 v2 c3 r c4 c5)
qed

section \<open>Mount\<close>

text \<open>
  C5. When the element lookup matches no element or more than one, mount throws
  the error \<open>'invalid-froala-reactive-template'\<close> and has called nothing: the
  widget is not created, no content is set, no listener is subscribed.
\<close>

theorem rendered_structural_error:
  assumes "jq_length (dollar this) \<noteq> 1"
  shows "rendered this = ([], Inl (Error ''invalid-froala-reactive-template''))"
  using assms by (simp add: rendered_def)

theorem rendered_structural_error_witness:
  "jq_length (dollar \<lparr>data = data0, dollar = plugin\<lparr>jq_length := 0\<rparr>\<rparr>) \<noteq> 1
   \<and> rendered \<lparr>data = data0, dollar = plugin\<lparr>jq_length := 0\<rparr>\<rparr>
       = ([], Inl (Error ''invalid-froala-reactive-template''))
   \<and> jq_length (dollar \<lparr>data = data0, dollar = plugin\<lparr>jq_length := 2\<rparr>\<rparr>) \<noteq> 1
   \<and> rendered \<lparr>data = data0, dollar = plugin\<lparr>jq_length := 2\<rparr>\<rparr>
       = ([], Inl (Error ''invalid-froala-reactive-template''))"
proof -
  have z: "jq_length (dollar \<lparr>data = data0, dollar = plugin\<lparr>jq_length := 0\<rparr>\<rparr>) \<noteq> 1"
    by simp
  have t: "jq_length (dollar \<lparr>data = data0, dollar = plugin\<lparr>jq_length := 2\<rparr>\<rparr>) \<noteq> 1"
    by simp
  show ?thesis
    by (intro conjI z t rendered_structural_error [OF z] rendered_structural_error [OF t])
qed

text \<open>
  C6. When exactly one element matches and neither \<open>froalaEditable\<close> nor \<open>editable\<close>
  is a function on the jQuery object, mount throws the error
  \<open>'invalid-froala-editor-plugin'\<close> and has called nothing. The resolution of the
  method name tries \<open>froalaEditable\<close> first and \<open>editable\<close> second, returns the
  first that is a function, and otherwise (also for a falsy argument) \<open>null\<close>.
\<close>

theorem rendered_plugin_missing:
  "(jq_length (dollar this) = 1 \<and> \<not> isFunction (froalaEditable (dollar this))
      \<and> \<not> isFunction (editable (dollar this))
      \<longrightarrow> rendered this = ([], Inl (Error ''invalid-froala-editor-plugin'')))
   \<and> getFroalaEditableJQueryInstanceMethod (Some jq)
       = (if isFunction (froalaEditable jq) then Some ''froalaEditable''
          else if isFunction (editable jq) then Some ''editable'' else None)
   \<and> getFroalaEditableJQueryInstanceMethod None = None"
  by (simp add: rendered_def)

theorem rendered_plugin_missing_witness:
  "jq_length (dollar \<lparr>data = data0, dollar = no_plugin\<rparr>) = 1
   \<and> \<not> isFunction (froalaEditable (dollar \<lparr>data = data0, dollar = no_plugin\<rparr>))
   \<and> \<not> isFunction (editable (dollar \<lparr>data = data0, dollar = no_plugin\<rparr>))
   \<and> rendered \<lparr>data = data0, dollar = no_plugin\<rparr>
       = ([], Inl (Error ''invalid-froala-editor-plugin''))
   \<and> getFroalaEditableJQueryInstanceMethod (Some renamed_plugin) = Some ''froalaEditable''
   \<and> getFroalaEditableJQueryInstanceMethod (Some plugin) = Some ''editable''
   \<and> getFroalaEditableJQueryInstanceMethod (Some no_plugin) = None"
  using rendered_plugin_missing [of "\<lparr>data = data0, dollar = no_plugin\<rparr>" renamed_plugin]
    rendered_plugin_missing [of "\<lparr>data = data0, dollar = no_plugin\<rparr>" plugin]
    rendered_plugin_missing [of "\<lparr>data = data0, dollar = no_plugin\<rparr>" no_plugin]
  by (simp add: no_plugin_def plugin_def renamed_plugin_def)

text \<open>
  C10. A mount that finds its element and the plugin creates the widget with the
  whole data context, next calls \<open>'setHTML'\<close> with \<open>_value\<close> when \<open>_value\<close> is
  truthy, and then only subscribes listeners: it calls \<open>'setHTML'\<close> once and
  \<open>'restoreSelectionByMarkers'\<close> never. When \<open>_value\<close> is absent or falsy, no mount
  calls \<open>'setHTML'\<close>. The first run of the autorun block, on the data context the
  template was rendered with, calls nothing.
\<close>

theorem rendered_content_set:
  "(jq_length (dollar this) = 1
      \<and> getFroalaEditableJQueryInstanceMethod (Some (dollar this)) = Some m
      \<longrightarrow> fst (rendered this)
            = Widget m (Init (data this))
              # (if truthy (getprop (data this) ''_value'')
                 then [Widget m (SetHTML (getprop (data this) ''_value''))] else [])
              @ map (\<lambda>opt. On (eventName opt) opt) (getEventHandlerNames (data this))
          \<and> content_calls (fst (rendered this))
            = (if truthy (getprop (data this) ''_value'')
               then [SetHTML (getprop (data this) ''_value'')] else []))
   \<and> (\<not> truthy (getprop (data this) ''_value'') \<longrightarrow> content_calls (fst (rendered this)) = [])
   \<and> (rendered this = (effs, Inr st) \<longrightarrow> fst (autorun st (data this)) = [])"
proof -
  have a: "content_calls (fst (rendered this))
            = (if truthy (getprop (data this) ''_value'')
               then [SetHTML (getprop (data this) ''_value'')] else [])"
    if "jq_length (dollar this) = 1"
      and "getFroalaEditableJQueryInstanceMethod (Some (dollar this)) = Some m"
    using that by (simp add: rendered_def Let_def content_calls_map_On)
  have b: "fst (rendered this)
            = Widget m (Init (data this))
              # (if truthy (getprop (data this) ''_value'')
                 then [Widget m (SetHTML (getprop (data this) ''_value''))] else [])
              @ map (\<lambda>opt. On (eventName opt) opt) (getEventHandlerNames (data this))"
    if "jq_length (dollar this) = 1"
      and "getFroalaEditableJQueryInstanceMethod (Some (dollar this)) = Some m"
    using that by (simp add: rendered_def Let_def)
  have c: "content_calls (fst (rendered this)) = []"
    if "\<not> truthy (getprop (data this) ''_value'')"
    using that by (simp add: rendered_def Let_def content_calls_map_On split: option.splits)
  have d: "fst (autorun st (data this)) = []" if r: "rendered this = (effs, Inr st)"
  proof -
    from r have "lastData st = data this"
      by (rule rendered_Inr) simp
    then show ?thesis
      using autorun_same [of st] by simp
  qed
  show ?thesis
    using a b c d by blast
qed

theorem rendered_content_set_witness:
  "jq_length (dollar \<lparr>data = data0, dollar = plugin\<rparr>) = 1
   \<and> getFroalaEditableJQueryInstanceMethod (Some (dollar \<lparr>data = data0, dollar = plugin\<rparr>))
       = Some ''editable''
   \<and> fst (rendered \<lparr>data = data0, dollar = plugin\<rparr>)
       = [Widget ''editable'' (Init data0), Widget ''editable'' (SetHTML (JStr ''<p>a</p>'')),
          On ''editable.beforeSave'' ''_onbeforeSave'']
   \<and> content_calls (fst (rendered \<lparr>data = data0, dollar = plugin\<rparr>))
       = [SetHTML (JStr ''<p>a</p>'')]
   \<and> \<not> truthy (getprop (data \<lparr>data = data2, dollar = plugin\<rparr>) ''_value'')
   \<and> fst (rendered \<lparr>data = data2, dollar = plugin\<rparr>) = [Widget ''editable'' (Init data2)]
   \<and> content_calls (fst (rendered \<lparr>data = data2, dollar = plugin\<rparr>)) = []
   \<and> rendered \<lparr>data = data0, dollar = plugin\<rparr> = (fst (rendered \<lparr>data = data0, dollar = plugin\<rparr>), Inr adapter0)
   \<and> fst (autorun adapter0 data0) = []"
proof -
  have m: "getFroalaEditableJQueryInstanceMethod (Some plugin) = Some ''editable''"
    by (simp add: plugin_def)
  have l: "jq_length plugin = 1"
    by (simp add: plugin_def)
  have v0: "getprop data0 ''_value'' = JStr ''<p>a</p>''"
    by (simp add: data0_def getprop_def Object_prototype_def)
  have v2: "getprop data2 ''_value'' = JStr []"
    by (simp add: data2_def getprop_def Object_prototype_def)
  have h0: "getEventHandlerNames data0 = [''_onbeforeSave'']"
    by (simp add: getEventHandlerNames_def data0_def Object_keys_def getprop_def Object_prototype_def)
  have h2: "getEventHandlerNames data2 = []"
    by (simp add: getEventHandlerNames_def data2_def Object_keys_def getprop_def Object_prototype_def)
  have e: "eventName ''_onbeforeSave'' = ''editable.beforeSave''"
    by (simp add: eventName_def substring_def)
  have r: "rendered \<lparr>data = data0, dollar = plugin\<rparr>
             = (fst (rendered \<lparr>data = data0, dollar = plugin\<rparr>), Inr adapter0)"
    by (simp add: rendered_plugin_data0 adapter0_def)
  show ?thesis
    using rendered_content_set [of "\<lparr>data = data0, dollar = plugin\<rparr>" "''editable''"
        "fst (rendered \<lparr>data = data0, dollar = plugin\<rparr>)" adapter0]
      rendered_content_set [of "\<lparr>data = data2, dollar = plugin\<rparr>" "''editable''"]
      m l v0 v2 h0 h2 e r
    by simp
qed

section \<open>Event bindings\<close>

text \<open>
  C9. The discovery of event bindings returns, for every data context, its keys
  that start with \<open>_on\<close> and whose value is a function, in the order of the key
  enumeration and nothing else; it is a function of the data context alone. On
  \<open>{_onSave: fn, _onLoad: "x", foo: fn, _onSave2: fn}\<close> it returns
  \<open>["_onSave", "_onSave2"]\<close>.
\<close>

theorem getEventHandlerNames_filter:
  "getEventHandlerNames d
     = filter (\<lambda>k. prefix ''_on'' k \<and> isFunction (getprop d k)) (Object_keys d)
   \<and> subseq (getEventHandlerNames d) (Object_keys d)
   \<and> getEventHandlerNames
       [(''_onSave'', JFun 0), (''_onLoad'', JStr ''x''), (''foo'', JFun 0), (''_onSave2'', JFun 0)]
     = [''_onSave'', ''_onSave2'']"
proof -
  have a: "getEventHandlerNames d
     = filter (\<lambda>k. prefix ''_on'' k \<and> isFunction (getprop d k)) (Object_keys d)"
    by (simp add: getEventHandlerNames_def indexOf_0_iff)
  have b: "subseq (getEventHandlerNames d) (Object_keys d)"
    by (simp add: getEventHandlerNames_def)
  have c: "getEventHandlerNames
       [(''_onSave'', JFun 0), (''_onLoad'', JStr ''x''), (''foo'', JFun 0), (''_onSave2'', JFun 0)]
     = [''_onSave'', ''_onSave2'']"
    by (simp add: getEventHandlerNames_def Object_keys_def getprop_def Object_prototype_def)
  show ?thesis
    by (intro conjI a b c)
qed

theorem getEventHandlerNames_filter_witness:
  "getEventHandlerNames data0 = [''_onbeforeSave'']
   \<and> filter (\<lambda>k. prefix ''_on'' k \<and> isFunction (getprop data0 k)) (Object_keys data0)
       = [''_onbeforeSave'']"
  using getEventHandlerNames_filter [of data0]
  by (simp add: data0_def Object_keys_def getprop_def Object_prototype_def)

text \<open>
  C3, as the code has it. For every key \<open>_on<Name>\<close> of the data context a template
  is rendered with whose value is a function, a successful mount subscribes a
  listener under \<open>'editable.'\<close> followed by \<open><Name>\<close> as the key spells it: the key
  without its first three characters, in the case it was written. Called with an
  event and further arguments, after any number of runs of the autorun block, the
  listener prevents the default action of the event and then applies the function
  to the event and those arguments, with \<open>this\<close> the data context the block saw
  last (the one of the mount when it has not run).
\<close>

theorem listener_subscribed_and_applied:
  assumes "rendered this = (effs, Inr st)"
    and "opt \<in> set (Object_keys (data this))"
    and "prefix ''_on'' opt"
    and "isFunction (getprop (data this) opt)"
  shows "On (''editable.'' @ drop 3 opt) opt \<in> set effs
       \<and> listener (autoruns st ds) opt e extra
           = ([PreventDefault e,
               Apply (getprop (data this) opt) (last (data this # ds)) (e # extra)], Inr ())"
proof -
  from assms(1) obtain m where
    effs: "effs = [Widget m (Init (data this))]
              @ (if truthy (getprop (data this) ''_value'')
                 then [Widget m (SetHTML (getprop (data this) ''_value''))] else [])
              @ map (\<lambda>opt. On (eventName opt) opt) (getEventHandlerNames (data this))"
    and st: "st = \<lparr>tmpl = this, lastData = data this, input = dollar this, froalaMethod = m\<rparr>"
    by (rule rendered_Inr)
  have "opt \<in> set (getEventHandlerNames (data this))"
    using assms(2-4) by (simp add: getEventHandlerNames_def indexOf_0_iff)
  then have sub: "On (''editable.'' @ drop 3 opt) opt \<in> set effs"
    using effs by (auto simp: eventName_def substring_def)
  have t: "tmpl (autoruns st ds) = this"
    using st by (simp add: tmpl_autoruns)
  have l: "lastData (autoruns st ds) = last (data this # ds)"
    using st by (simp add: lastData_autoruns)
  have call: "listener (autoruns st ds) opt e extra
           = ([PreventDefault e,
               Apply (getprop (data this) opt) (last (data this # ds)) (e # extra)], Inr ())"
    using assms(4) unfolding listener_def Let_def t l by simp
  show ?thesis
    using sub call by simp
qed

theorem listener_subscribed_and_applied_witness:
  "rendered \<lparr>data = data0, dollar = plugin\<rparr>
     = ([Widget ''editable'' (Init data0), Widget ''editable'' (SetHTML (JStr ''<p>a</p>'')),
         On ''editable.beforeSave'' ''_onbeforeSave''], Inr adapter0)
   \<and> ''_onbeforeSave'' \<in> set (Object_keys (data \<lparr>data = data0, dollar = plugin\<rparr>))
   \<and> prefix ''_on'' ''_onbeforeSave''
   \<and> isFunction (getprop (data \<lparr>data = data0, dollar = plugin\<rparr>) ''_onbeforeSave'')
   \<and> listener (autoruns adapter0 [data1, data2]) ''_onbeforeSave'' ev [editor]
       = ([PreventDefault ev, Apply (JFun 1) data2 [ev, editor]], Inr ())"
proof -
  have r: "rendered \<lparr>data = data0, dollar = plugin\<rparr>
     = ([Widget ''editable'' (Init data0), Widget ''editable'' (SetHTML (JStr ''<p>a</p>'')),
         On ''editable.beforeSave'' ''_onbeforeSave''], Inr adapter0)"
    by (simp add: rendered_plugin_data0 adapter0_def)
  have k: "''_onbeforeSave'' \<in> set (Object_keys (data \<lparr>data = data0, dollar = plugin\<rparr>))"
    by (simp add: data0_def Object_keys_def)
  have p: "prefix ''_on'' ''_onbeforeSave''"
    by simp
  have f: "isFunction (getprop (data \<lparr>data = data0, dollar = plugin\<rparr>) ''_onbeforeSave'')"
    by (simp add: data0_def getprop_def Object_prototype_def)
  have v: "getprop data0 ''_onbeforeSave'' = JFun 1"
    by (simp add: data0_def getprop_def Object_prototype_def)
  have c: "listener (autoruns adapter0 [data1, data2]) ''_onbeforeSave'' ev [editor]
       = ([PreventDefault ev, Apply (JFun 1) data2 [ev, editor]], Inr ())"
    using listener_subscribed_and_applied [OF r k p f, of "[data1, data2]" ev "[editor]"] v
    by simp
  show ?thesis
    by (intro conjI r k p f c)
qed

text \<open>
  The lowercased name of C3 is not the name the code subscribes: for the key
  \<open>_onSave\<close> the listener is subscribed under \<open>editable.Save\<close>, and nothing is
  subscribed under \<open>editable.save\<close>.
\<close>

theorem eventName_not_lowercased:
  "subscribed (fst (rendered \<lparr>data = [(''_onSave'', JFun 0)], dollar = plugin\<rparr>))
     = [''editable.Save'']
   \<and> lowercased_eventName ''_onSave'' = ''editable.save''
   \<and> lowercased_eventName ''_onSave''
       \<notin> set (subscribed (fst (rendered \<lparr>data = [(''_onSave'', JFun 0)], dollar = plugin\<rparr>)))"
  by (simp add: rendered_def Let_def plugin_def getEventHandlerNames_def Object_keys_def
      getprop_def Object_prototype_def eventName_def substring_def lowercased_eventName_def toLowerCase_def)

text \<open>
  C4. The function a listener applies is the one the data context of the mount has
  under the listener's key: for every listener subscribed by a successful mount and
  every sequence of data contexts the autorun block has processed since, a call of
  the listener applies that function, and only it, whatever those data contexts
  hold under the key.
\<close>

theorem listener_applies_initial_callback:
  assumes "rendered this = (effs, Inr st)"
    and "On n opt \<in> set effs"
  shows "applied (fst (listener (autoruns st ds) opt e extra)) = [getprop (data this) opt]
       \<and> snd (listener (autoruns st ds) opt e extra) = Inr ()"
proof -
  from assms(1) obtain m where
    effs: "effs = [Widget m (Init (data this))]
              @ (if truthy (getprop (data this) ''_value'')
                 then [Widget m (SetHTML (getprop (data this) ''_value''))] else [])
              @ map (\<lambda>opt. On (eventName opt) opt) (getEventHandlerNames (data this))"
    and st: "st = \<lparr>tmpl = this, lastData = data this, input = dollar this, froalaMethod = m\<rparr>"
    by (rule rendered_Inr)
  have "opt \<in> set (getEventHandlerNames (data this))"
    using assms(2) effs by (auto split: if_splits)
  then have f: "isFunction (getprop (data this) opt)"
    by (simp add: getEventHandlerNames_def)
  have t: "tmpl (autoruns st ds) = this"
    using st by (simp add: tmpl_autoruns)
  show ?thesis
    using f unfolding listener_def Let_def t by simp
qed

theorem listener_applies_initial_callback_witness:
  "rendered \<lparr>data = data0, dollar = plugin\<rparr>
     = ([Widget ''editable'' (Init data0), Widget ''editable'' (SetHTML (JStr ''<p>a</p>'')),
         On ''editable.beforeSave'' ''_onbeforeSave''], Inr adapter0)
   \<and> getprop data0 ''_onbeforeSave'' = JFun 1
   \<and> getprop data1 ''_onbeforeSave'' = JFun 2
   \<and> getprop data2 ''_onbeforeSave'' = JUndefined
   \<and> applied (fst (listener (autoruns adapter0 [data1]) ''_onbeforeSave'' ev [editor]))
       = [JFun 1]
   \<and> applied (fst (listener (autoruns adapter0 [data1, data2]) ''_onbeforeSave'' ev [editor]))
       = [JFun 1]"
proof -
  have r: "rendered \<lparr>data = data0, dollar = plugin\<rparr>
     = ([Widget ''editable'' (Init data0), Widget ''editable'' (SetHTML (JStr ''<p>a</p>'')),
         On ''editable.beforeSave'' ''_onbeforeSave''], Inr adapter0)"
    by (simp add: rendered_plugin_data0 adapter0_def)
  have o: "On ''editable.beforeSave'' ''_onbeforeSave''
             \<in> set [Widget ''editable'' (Init data0),
                    Widget ''editable'' (SetHTML (JStr ''<p>a</p>'')),
                    On ''editable.beforeSave'' ''_onbeforeSave'']"
    by simp
  have v0: "getprop data0 ''_onbeforeSave'' = JFun 1"
    by (simp add: data0_def getprop_def Object_prototype_def)
  have v1: "getprop data1 ''_onbeforeSave'' = JFun 2"
    by (simp add: data1_def getprop_def Object_prototype_def)
  have v2: "getprop data2 ''_onbeforeSave'' = JUndefined"
    by (simp add: data2_def getprop_def Object_prototype_def)
  have a1: "applied (fst (listener (autoruns adapter0 [data1]) ''_onbeforeSave'' ev [editor]))
       = [JFun 1]"
    using listener_applies_initial_callback [OF r o, of "[data1]" ev "[editor]"] v0
    by simp
  have a2: "applied (fst (listener (autoruns adapter0 [data1, data2]) ''_onbeforeSave'' ev [editor]))
       = [JFun 1]"
    using listener_applies_initial_callback [OF r o, of "[data1, data2]" ev "[editor]"] v0
    by simp
  show ?thesis
    by (intro conjI r v0 v1 v2 a1 a2)
qed

section \<open>Unmount\<close>

text \<open>
  C7, as the code has it. Unmount returns normally whenever its element lookup
  returns and either neither method name resolves, and then it does nothing at
  all whatever the data context is, or the data context is an object, and then it
  unbinds and calls the widget's \<open>destroy\<close>, and an exception of that call is caught
  and dropped: the hook returns the same whether \<open>destroy\<close> throws or not.
\<close>

theorem destroyed_returns_normally:
  "(this_dollar this = Inr jq \<and> getFroalaEditableJQueryInstanceMethod (Some jq) = None
      \<longrightarrow> destroyed this destroy_throws = ([], Inr ()))
   \<and> (this_dollar this = Inr jq \<and> getFroalaEditableJQueryInstanceMethod (Some jq) = Some m
        \<and> this_data this = Some d
      \<longrightarrow> destroyed this destroy_throws
            = (map (\<lambda>opt. Unbind (eventName opt)) (getEventHandlerNames d) @ [Widget m Destroy],
               Inr ()))
   \<and> destroyed this True = destroyed this False"
  by (simp add: destroyed_def try_catch_def split: sum.splits option.splits)

theorem destroyed_returns_normally_witness:
  "this_dollar \<lparr>this_data = None, this_dollar = Inr no_plugin\<rparr> = Inr no_plugin
   \<and> getFroalaEditableJQueryInstanceMethod (Some no_plugin) = None
   \<and> destroyed \<lparr>this_data = None, this_dollar = Inr no_plugin\<rparr> True = ([], Inr ())
   \<and> this_dollar \<lparr>this_data = Some data0, this_dollar = Inr plugin\<rparr> = Inr plugin
   \<and> getFroalaEditableJQueryInstanceMethod (Some plugin) = Some ''editable''
   \<and> this_data \<lparr>this_data = Some data0, this_dollar = Inr plugin\<rparr> = Some data0
   \<and> destroyed \<lparr>this_data = Some data0, this_dollar = Inr plugin\<rparr> True
       = ([Unbind ''editable.beforeSave'', Widget ''editable'' Destroy], Inr ())"
proof -
  have d1: "this_dollar \<lparr>this_data = None, this_dollar = Inr no_plugin\<rparr> = Inr no_plugin"
    by simp
  have n: "getFroalaEditableJQueryInstanceMethod (Some no_plugin) = None"
    by (simp add: no_plugin_def)
  have r1: "destroyed \<lparr>this_data = None, this_dollar = Inr no_plugin\<rparr> True = ([], Inr ())"
    using destroyed_returns_normally
      [where this = "\<lparr>this_data = None, this_dollar = Inr no_plugin\<rparr>" and jq = no_plugin
        and destroy_throws = True, THEN conjunct1] d1 n
    by blast
  have d2: "this_dollar \<lparr>this_data = Some data0, this_dollar = Inr plugin\<rparr> = Inr plugin"
    by simp
  have p: "getFroalaEditableJQueryInstanceMethod (Some plugin) = Some ''editable''"
    by (simp add: plugin_def)
  have t2: "this_data \<lparr>this_data = Some data0, this_dollar = Inr plugin\<rparr> = Some data0"
    by simp
  have h: "getEventHandlerNames data0 = [''_onbeforeSave'']"
    by (simp add: getEventHandlerNames_def data0_def Object_keys_def getprop_def)
  have e: "eventName ''_onbeforeSave'' = ''editable.beforeSave''"
    by (simp add: eventName_def substring_def)
  have "destroyed \<lparr>this_data = Some data0, this_dollar = Inr plugin\<rparr> True
       = (map (\<lambda>opt. Unbind (eventName opt)) (getEventHandlerNames data0)
            @ [Widget ''editable'' Destroy], Inr ())"
    using destroyed_returns_normally
      [where this = "\<lparr>this_data = Some data0, this_dollar = Inr plugin\<rparr>" and jq = plugin
        and m = "''editable''" and d = data0 and destroy_throws = True,
        THEN conjunct2, THEN conjunct1] d2 p t2
    by blast
  then have r2: "destroyed \<lparr>this_data = Some data0, this_dollar = Inr plugin\<rparr> True
       = ([Unbind ''editable.beforeSave'', Widget ''editable'' Destroy], Inr ())"
    using h e by simp
  show ?thesis
    by (intro conjI d1 n r1 d2 p t2 r2)
qed

text \<open>
  C7 as stated fails for an unmount with the plugin present and a \<open>null\<close> data
  context, as a failed mount of a template without data context leaves it: the
  enumeration of the keys throws a TypeError before anything is unbound. It fails
  too when the element lookup throws. Neither is inside the \<open>try\<close> block.
\<close>

theorem destroyed_throws_outside_try:
  "destroyed \<lparr>this_data = None, this_dollar = Inr plugin\<rparr> False = ([], Inl TypeError)
   \<and> snd (destroyed \<lparr>this_data = None, this_dollar = Inr plugin\<rparr> False) \<noteq> Inr ()
   \<and> destroyed \<lparr>this_data = Some data0, this_dollar = Inl no_DOM\<rparr> False = ([], Inl no_DOM)
   \<and> snd (destroyed \<lparr>this_data = Some data0, this_dollar = Inl no_DOM\<rparr> False) \<noteq> Inr ()"
  by (simp add: destroyed_def plugin_def)




end
